theory Spec2Isabelle
  imports Complex_Main "HOL-Library.Char_ord" "HOL-Library.List_Lexorder"
begin

section \<open>Values\<close>

subsection \<open>Python floats\<close>

text \<open>
  An amount is a Python \<^verbatim>\<open>float\<close>, an IEEE-754 double. The model keeps the three special
  values apart from the finite ones, which are real numbers. Arithmetic rounds its exact
  result to the nearest double, ties to even, and gives an infinity where that overflows.
  The sign of zero is not modelled.
\<close>

datatype pyfloat = Fin real | PInf | NInf | NaN

text \<open>\<open>pow2 k\<close> is \<open>2\<close> to the power \<open>k\<close>, and \<open>floor_log2 a\<close> the exponent of a positive
  \<open>a\<close>: the \<open>e\<close> with \<open>pow2 e \<le> a < pow2 (e + 1)\<close>.\<close>

definition pow2 :: "int \<Rightarrow> real" where
  "pow2 k = (if 0 \<le> k then 2 ^ nat k else 1 / 2 ^ nat (- k))"

fun ilog2 :: "nat \<Rightarrow> nat" where
  "ilog2 n = (if n < 2 then 0 else Suc (ilog2 (n div 2)))"

declare ilog2.simps [simp del]

definition floor_log2 :: "real \<Rightarrow> int" where
  "floor_log2 a =
     (if 1 \<le> a then int (ilog2 (nat \<lfloor>a\<rfloor>))
      else - int (Suc (ilog2 (nat \<lceil>1 / a\<rceil> - 1))))"

definition round_half_even :: "real \<Rightarrow> int" where
  "round_half_even m =
     (let f = \<lfloor>m\<rfloor>; d = m - of_int f
      in if d < 1 / 2 then f
         else if 1 / 2 < d then f + 1
         else if even f then f else f + 1)"

text \<open>
  The double nearest to a real number. A double is a multiple of \<open>pow2 p\<close> with at most 53
  bits, where \<open>p\<close> is 52 below the exponent and at least \<open>-1074\<close>; a result of \<open>pow2 1024\<close>
  or more is an infinity.
\<close>

definition round_double :: "real \<Rightarrow> pyfloat" where
  "round_double q =
     (if q = 0 then Fin 0
      else
        (let a = \<bar>q\<bar>;
             p = max (floor_log2 a - 52) (- 1074);
             r = of_int (round_half_even (a / pow2 p)) * pow2 p
         in if pow2 1024 \<le> r then (if 0 < q then PInf else NInf)
            else Fin (if 0 < q then r else - r)))"

fun fadd :: "pyfloat \<Rightarrow> pyfloat \<Rightarrow> pyfloat" where
  "fadd NaN _ = NaN"
| "fadd _ NaN = NaN"
| "fadd PInf NInf = NaN"
| "fadd NInf PInf = NaN"
| "fadd PInf _ = PInf"
| "fadd _ PInf = PInf"
| "fadd NInf _ = NInf"
| "fadd _ NInf = NInf"
| "fadd (Fin a) (Fin b) = round_double (a + b)"

text \<open>\<open>0\<close> and \<open>+\<close> on floats are \<^verbatim>\<open>0.0\<close> and float addition.\<close>

instantiation pyfloat :: "{zero, plus}"
begin

definition zero_pyfloat :: pyfloat where
  "zero_pyfloat = Fin 0"

definition plus_pyfloat :: "pyfloat \<Rightarrow> pyfloat \<Rightarrow> pyfloat" where
  "plus_pyfloat = fadd"

instance ..

end

text \<open>\<^verbatim>\<open>a < b\<close> on floats: false as soon as one side is NaN.\<close>

fun flt :: "pyfloat \<Rightarrow> pyfloat \<Rightarrow> bool" where
  "flt NaN _ = False"
| "flt _ NaN = False"
| "flt (Fin a) (Fin b) = (a < b)"
| "flt (Fin _) PInf = True"
| "flt (Fin _) NInf = False"
| "flt PInf _ = False"
| "flt NInf (Fin _) = True"
| "flt NInf PInf = True"
| "flt NInf NInf = False"

text \<open>\<^verbatim>\<open>a > b\<close> is \<^verbatim>\<open>b < a\<close>; \<^verbatim>\<open>a <= b\<close> is \<^verbatim>\<open>a < b or a == b\<close>, where NaN equals
  nothing.\<close>

definition fgt :: "pyfloat \<Rightarrow> pyfloat \<Rightarrow> bool" where
  "fgt a b = flt b a"


definition is_finite :: "pyfloat \<Rightarrow> bool" where
  "is_finite x = (case x of Fin _ \<Rightarrow> True | _ \<Rightarrow> False)"

definition exact_value :: "pyfloat \<Rightarrow> real" where
  "exact_value x = (case x of Fin q \<Rightarrow> q | _ \<Rightarrow> 0)"

subsection \<open>Exceptions\<close>

datatype py_error =
    KeyError | TypeError | ValueError | OverflowError | OSError
  | JSONDecodeError | UnicodeDecodeError | EOFError | StatisticsError

text \<open>The subclass relation of the exception classes: \<^verbatim>\<open>JSONDecodeError\<close> and
  \<^verbatim>\<open>UnicodeDecodeError\<close> derive from \<^verbatim>\<open>ValueError\<close>; \<^verbatim>\<open>OverflowError\<close> derives from
  \<^verbatim>\<open>ArithmeticError\<close> and from none of the classes named here.\<close>

fun is_subclass :: "py_error \<Rightarrow> py_error \<Rightarrow> bool" where
  "is_subclass JSONDecodeError ValueError = True"
| "is_subclass UnicodeDecodeError ValueError = True"
| "is_subclass e c = (e = c)"

definition caught :: "py_error list \<Rightarrow> py_error \<Rightarrow> bool" where
  "caught classes e = (\<exists>c \<in> set classes. is_subclass e c)"

subsection \<open>Untyped data, as \<^verbatim>\<open>json.load\<close> returns it\<close>

datatype json =
    JNull | JBool bool | JInt int | JFloat pyfloat | JStr string
  | JList "json list" | JObj "(string \<times> json) list"

text \<open>\<^verbatim>\<open>record[key]\<close>: only a dict can be indexed by a string.\<close>

fun py_getitem :: "json \<Rightarrow> string \<Rightarrow> py_error + json" where
  "py_getitem (JObj kvs) k = (case map_of kvs k of None \<Rightarrow> Inl KeyError | Some v \<Rightarrow> Inr v)"
| "py_getitem _ k = Inl TypeError"

subsection \<open>Date and time\<close>

record datetime =
  dt_year :: nat
  dt_month :: nat
  dt_day :: nat
  dt_hour :: nat
  dt_minute :: nat
  dt_second :: nat
  dt_microsecond :: nat

type_synonym date = "nat \<times> nat \<times> nat"

definition date_of :: "datetime \<Rightarrow> date" where
  "date_of t = (dt_year t, dt_month t, dt_day t)"

definition digit_char :: "nat \<Rightarrow> char" where
  "digit_char n = ''0123456789'' ! (n mod 10)"

definition pad2 :: "nat \<Rightarrow> string" where
  "pad2 n = [digit_char (n div 10), digit_char n]"

definition pad4 :: "nat \<Rightarrow> string" where
  "pad4 n = [digit_char (n div 1000), digit_char (n div 100), digit_char (n div 10), digit_char n]"

text \<open>\<^verbatim>\<open>isoformat(timespec="seconds")\<close> of a naive date-time: every field is padded.\<close>

definition isoformat_seconds :: "datetime \<Rightarrow> string" where
  "isoformat_seconds t =
     pad4 (dt_year t) @ ''-'' @ pad2 (dt_month t) @ ''-'' @ pad2 (dt_day t) @ ''T''
       @ pad2 (dt_hour t) @ '':'' @ pad2 (dt_minute t) @ '':'' @ pad2 (dt_second t)"

section \<open>The Python runtime\<close>

text \<open>
  The program calls library functions whose code is not part of it. They are parameters
  of the model, so that every general theorem below holds whatever they compute:
  \<^item> \<open>float_of_str\<close>: \<^verbatim>\<open>float(s)\<close> on a string, \<open>None\<close> where it raises \<^verbatim>\<open>ValueError\<close>;
  \<^item> \<open>fromisoformat\<close>: \<^verbatim>\<open>datetime.fromisoformat(s)\<close>, \<open>None\<close> where it raises
    \<^verbatim>\<open>ValueError\<close>;
  \<^item> \<open>str_of\<close>: \<^verbatim>\<open>str(v)\<close> on a value that is not already a string;
  \<^item> \<open>strip\<close>: \<^verbatim>\<open>s.strip()\<close>;
  \<^item> \<open>strftime\<close>: \<^verbatim>\<open>t.strftime(format)\<close>, whose text for a year depends on the platform;
  \<^item> \<open>json_loads\<close> and \<open>json_dumps\<close>: the JSON decoder and encoder on text;
  \<^item> \<open>clock\<close>: what the \<open>n\<close>-th call of \<^verbatim>\<open>datetime.now()\<close> returns.
\<close>

record runtime =
  float_of_str :: "string \<Rightarrow> pyfloat option"
  fromisoformat :: "string \<Rightarrow> datetime option"
  str_of :: "json \<Rightarrow> string"
  strip :: "string \<Rightarrow> string"
  strftime :: "string \<Rightarrow> datetime \<Rightarrow> string"
  json_loads :: "string \<Rightarrow> py_error + json"
  json_dumps :: "json \<Rightarrow> string"
  clock :: "nat \<Rightarrow> datetime"

text \<open>\<^verbatim>\<open>str(v)\<close>\<close>

definition py_str :: "runtime \<Rightarrow> json \<Rightarrow> string" where
  "py_str rt v = (case v of JStr s \<Rightarrow> s | _ \<Rightarrow> str_of rt v)"

text \<open>
  \<^verbatim>\<open>float(v)\<close>. An \<^verbatim>\<open>int\<close> is rounded to the nearest double, and one that rounds
  beyond the largest double raises \<^verbatim>\<open>OverflowError\<close>: that is from
  \<open>2^1024 - 2^970\<close> on, in absolute value.
\<close>

definition float_max_int :: int where
  "float_max_int = 2 ^ 1024 - 2 ^ 970"

fun py_float :: "runtime \<Rightarrow> json \<Rightarrow> py_error + pyfloat" where
  "py_float rt JNull = Inl TypeError"
| "py_float rt (JBool b) = Inr (Fin (if b then 1 else 0))"
| "py_float rt (JInt n) = (if \<bar>n\<bar> \<ge> float_max_int then Inl OverflowError else Inr (round_double (of_int n)))"
| "py_float rt (JFloat a) = Inr a"
| "py_float rt (JStr s) = (case float_of_str rt s of None \<Rightarrow> Inl ValueError | Some a \<Rightarrow> Inr a)"
| "py_float rt (JList _) = Inl TypeError"
| "py_float rt (JObj _) = Inl TypeError"

section \<open>The record validator\<close>

text \<open>
  \<^verbatim>\<open>parse_sale_record\<close>. The body of the \<^verbatim>\<open>try\<close> is \<open>parse_body\<close>; the handler turns
  \<^verbatim>\<open>KeyError\<close>, \<^verbatim>\<open>TypeError\<close> and \<^verbatim>\<open>ValueError\<close> into the result \<open>None\<close> and lets every
  other exception through.
\<close>

definition parse_body :: "runtime \<Rightarrow> json \<Rightarrow> py_error + (datetime \<times> pyfloat)" where
  "parse_body rt record =
     (case py_getitem record ''timestamp'' of
        Inl e \<Rightarrow> Inl e
      | Inr tv \<Rightarrow>
          (let timestamp = py_str rt tv in
           case py_getitem record ''amount'' of
             Inl e \<Rightarrow> Inl e
           | Inr av \<Rightarrow>
               (case py_float rt av of
                  Inl e \<Rightarrow> Inl e
                | Inr amount \<Rightarrow>
                    (case fromisoformat rt timestamp of
                       None \<Rightarrow> Inl ValueError
                     | Some parsed_time \<Rightarrow> Inr (parsed_time, amount)))))"

definition parse_sale_record :: "runtime \<Rightarrow> json \<Rightarrow> py_error + (datetime \<times> pyfloat) option" where
  "parse_sale_record rt record =
     (case parse_body rt record of
        Inr p \<Rightarrow> Inr (Some p)
      | Inl e \<Rightarrow> if caught [KeyError, TypeError, ValueError] e then Inr None else Inl e)"

section \<open>The world outside the program\<close>

text \<open>
  What the program prints. A line whose text is fixed is kept as its text; a line that
  formats values keeps the values, since the rendering of a float with \<^verbatim>\<open>:.2f\<close> is not
  modelled.
\<close>

record report =
  generated_at :: datetime
  total_records :: nat
  total_sales :: pyfloat
  average_sale :: pyfloat
  max_sale :: pyfloat
  min_sale :: pyfloat
  daily_totals :: "(string \<times> pyfloat) list"

datatype printed =
    Line string
  | Prompt string
  | AttemptsLeft nat
  | SaleAdded pyfloat
  | SaleLine nat pyfloat datetime
  | InvalidLine nat
  | DailyTotalLine pyfloat
  | ReportLines report
  | ReportSaved string

text \<open>
  A file is its bytes, or cannot be opened for reading (\<^verbatim>\<open>OSError\<close>). The world holds the
  lines still to be typed, the output so far, the environment variable
  \<^verbatim>\<open>SMS_ADMIN_PASSWORD\<close>, the data file (\<open>None\<close> when it does not exist), the reports
  directory and the number of clock readings taken. Writing a file is taken to succeed.
\<close>

datatype pyfile = Unreadable | Bytes string

record world =
  stdin :: "string list"
  stdout :: "printed list"
  env_admin_password :: "string option"
  data_file :: "pyfile option"
  reports_dir :: bool
  report_files :: "string \<rightharpoonup> report"
  ticks :: nat

definition py_print :: "printed \<Rightarrow> world \<Rightarrow> world" where
  "py_print x w = w\<lparr>stdout := stdout w @ [x]\<rparr>"

text \<open>\<^verbatim>\<open>input(prompt)\<close>: at the end of the input it raises \<^verbatim>\<open>EOFError\<close>.\<close>

definition py_input :: "string \<Rightarrow> world \<Rightarrow> py_error + (string \<times> world)" where
  "py_input prompt w =
     (case stdin w of
        [] \<Rightarrow> Inl EOFError
      | l # ls \<Rightarrow> Inr (l, w\<lparr>stdin := ls, stdout := stdout w @ [Prompt prompt]\<rparr>))"

text \<open>\<^verbatim>\<open>datetime.now()\<close>\<close>

definition py_now :: "runtime \<Rightarrow> world \<Rightarrow> datetime \<times> world" where
  "py_now rt w = (clock rt (ticks w), w\<lparr>ticks := Suc (ticks w)\<rparr>)"

subsection \<open>Reading text in UTF-8\<close>

text \<open>
  The data file is opened with \<^verbatim>\<open>encoding="utf-8"\<close>, so reading it decodes the bytes and
  raises \<^verbatim>\<open>UnicodeDecodeError\<close> on an ill-formed sequence. \<open>utf8_lead\<close> gives, for a
  first byte, the number of bytes that follow and the range of the first of them. A text is
  identified with its encoding.
\<close>

definition utf8_lead :: "nat \<Rightarrow> (nat \<times> nat \<times> nat) option" where
  "utf8_lead b =
     (if b < 0x80 then Some (0, 0x80, 0xBF)
      else if 0xC2 \<le> b \<and> b \<le> 0xDF then Some (1, 0x80, 0xBF)
      else if b = 0xE0 then Some (2, 0xA0, 0xBF)
      else if b = 0xED then Some (2, 0x80, 0x9F)
      else if 0xE1 \<le> b \<and> b \<le> 0xEF then Some (2, 0x80, 0xBF)
      else if b = 0xF0 then Some (3, 0x90, 0xBF)
      else if 0xF1 \<le> b \<and> b \<le> 0xF3 then Some (3, 0x80, 0xBF)
      else if b = 0xF4 then Some (3, 0x80, 0x8F)
      else None)"

fun utf8_ok :: "nat list \<Rightarrow> bool" where
  "utf8_ok [] = True"
| "utf8_ok (b # bs) =
     (case utf8_lead b of
        None \<Rightarrow> False
      | Some (n, lo, hi) \<Rightarrow>
          n \<le> length bs
          \<and> (n = 0 \<or> (lo \<le> hd bs \<and> hd bs \<le> hi))
          \<and> list_all (\<lambda>c. 0x80 \<le> c \<and> c \<le> 0xBF) (take n bs)
          \<and> utf8_ok (drop n bs))"

definition utf8_valid :: "string \<Rightarrow> bool" where
  "utf8_valid s = utf8_ok (map of_char s)"

definition read_text :: "pyfile \<Rightarrow> py_error + string" where
  "read_text f =
     (case f of
        Unreadable \<Rightarrow> Inl OSError
      | Bytes bs \<Rightarrow> if utf8_valid bs then Inr bs else Inl UnicodeDecodeError)"

section \<open>The program\<close>

definition DEFAULT_ADMIN_PASSWORD :: string where
  "DEFAULT_ADMIN_PASSWORD = ''admin123''"

definition MAX_LOGIN_ATTEMPTS :: nat where
  "MAX_LOGIN_ATTEMPTS = 3"

definition get_admin_password :: "world \<Rightarrow> string" where
  "get_admin_password w =
     (case env_admin_password w of None \<Rightarrow> DEFAULT_ADMIN_PASSWORD | Some p \<Rightarrow> p)"

subsection \<open>Loading and saving\<close>

text \<open>The body of the \<^verbatim>\<open>try\<close> in \<^verbatim>\<open>load_sales_data\<close>: open, read, decode.\<close>

definition load_body :: "runtime \<Rightarrow> pyfile \<Rightarrow> py_error + json list" where
  "load_body rt f =
     (case read_text f of
        Inl e \<Rightarrow> Inl e
      | Inr txt \<Rightarrow>
          (case json_loads rt txt of
             Inl e \<Rightarrow> Inl e
           | Inr data \<Rightarrow> Inr (case data of JList xs \<Rightarrow> xs | _ \<Rightarrow> [])))"

definition load_sales_data :: "runtime \<Rightarrow> world \<Rightarrow> py_error + json list" where
  "load_sales_data rt w =
     (case data_file w of
        None \<Rightarrow> Inr []
      | Some f \<Rightarrow>
          (case load_body rt f of
             Inr data \<Rightarrow> Inr data
           | Inl e \<Rightarrow> if caught [JSONDecodeError, OSError] e then Inr [] else Inl e))"

definition save_sales_data :: "runtime \<Rightarrow> json list \<Rightarrow> world \<Rightarrow> world" where
  "save_sales_data rt sales w = w\<lparr>data_file := Some (Bytes (json_dumps rt (JList sales)))\<rparr>"

subsection \<open>Login\<close>

text \<open>The \<^verbatim>\<open>for attempt in range(1, MAX_LOGIN_ATTEMPTS + 1)\<close> loop, and what follows it.\<close>

fun auth_attempts :: "runtime \<Rightarrow> string \<Rightarrow> nat list \<Rightarrow> world \<Rightarrow> py_error + (bool \<times> world)" where
  "auth_attempts rt admin_password [] w =
     Inr (False, py_print (Line ''Access denied. Too many failed attempts.'') w)"
| "auth_attempts rt admin_password (attempt # rest) w =
     (case py_input ''Enter admin password: '' w of
        Inl e \<Rightarrow> Inl e
      | Inr (l, w1) \<Rightarrow>
          (let password = strip rt l in
           if password = admin_password
           then Inr (True, py_print (Line (''Login successful.'' @ [CHR 0x0A])) w1)
           else
             (let attempts_left = MAX_LOGIN_ATTEMPTS - attempt in
              auth_attempts rt admin_password rest
                (if attempts_left > 0 then py_print (AttemptsLeft attempts_left) w1 else w1))))"

definition authenticate :: "runtime \<Rightarrow> world \<Rightarrow> py_error + (bool \<times> world)" where
  "authenticate rt w =
     (let w1 = py_print (Line (CHR 0x0A # ''=== Sales Management Login ==='')) w;
          admin_password = get_admin_password w1
      in auth_attempts rt admin_password [1 ..< MAX_LOGIN_ATTEMPTS + 1] w1)"

subsection \<open>Adding a sale\<close>

text \<open>The body of the \<^verbatim>\<open>try\<close> in \<^verbatim>\<open>add_sale\<close>.\<close>

definition amount_of_text :: "runtime \<Rightarrow> string \<Rightarrow> py_error + pyfloat" where
  "amount_of_text rt amount_text =
     (case py_float rt (JStr amount_text) of
        Inl e \<Rightarrow> Inl e
      | Inr amount \<Rightarrow> if flt amount 0 then Inl ValueError else Inr amount)"

definition add_sale :: "runtime \<Rightarrow> json list \<Rightarrow> world \<Rightarrow> py_error + (json list \<times> world)" where
  "add_sale rt sales w =
     (case py_input ''Enter sale amount: '' w of
        Inl e \<Rightarrow> Inl e
      | Inr (l, w1) \<Rightarrow>
          (let amount_text = strip rt l in
           case amount_of_text rt amount_text of
             Inl e \<Rightarrow>
               if caught [ValueError] e
               then Inr (sales, py_print (Line ''Invalid amount. Please enter a non-negative number.'') w1)
               else Inl e
           | Inr amount \<Rightarrow>
               (let (now, w2) = py_now rt w1;
                    sales' = sales @
                      [JObj [(''amount'', JFloat amount),
                             (''timestamp'', JStr (isoformat_seconds now))]];
                    w3 = save_sales_data rt sales' w2
                in Inr (sales', py_print (SaleAdded amount) w3))))"

subsection \<open>Viewing the sales\<close>

fun view_loop :: "runtime \<Rightarrow> json list \<Rightarrow> nat \<Rightarrow> nat \<Rightarrow> world \<Rightarrow> py_error + (nat \<times> world)" where
  "view_loop rt [] index displayed w = Inr (displayed, w)"
| "view_loop rt (r # rs) index displayed w =
     (case parse_sale_record rt r of
        Inl e \<Rightarrow> Inl e
      | Inr None \<Rightarrow> view_loop rt rs (index + 1) displayed (py_print (InvalidLine index) w)
      | Inr (Some (sale_time, amount)) \<Rightarrow>
          view_loop rt rs (index + 1) (displayed + 1) (py_print (SaleLine index amount sale_time) w))"

definition view_sales :: "runtime \<Rightarrow> json list \<Rightarrow> world \<Rightarrow> py_error + world" where
  "view_sales rt sales w =
     (if sales = [] then Inr (py_print (Line ''No sales records found.'') w)
      else
        (case view_loop rt sales 1 0 (py_print (Line (CHR 0x0A # ''=== Sales Records ==='')) w) of
           Inl e \<Rightarrow> Inl e
         | Inr (displayed, w1) \<Rightarrow>
             Inr (if displayed = 0
                  then py_print (Line ''No valid sales records to display.'') w1
                  else w1)))"

subsection \<open>The daily total\<close>

fun daily_loop :: "runtime \<Rightarrow> date \<Rightarrow> json list \<Rightarrow> pyfloat \<Rightarrow> py_error + pyfloat" where
  "daily_loop rt today [] tot = Inr tot"
| "daily_loop rt today (r # rs) tot =
     (case parse_sale_record rt r of
        Inl e \<Rightarrow> Inl e
      | Inr None \<Rightarrow> daily_loop rt today rs tot
      | Inr (Some (sale_time, amount)) \<Rightarrow>
          daily_loop rt today rs (if date_of sale_time = today then tot + amount else tot))"

definition show_daily_total :: "runtime \<Rightarrow> json list \<Rightarrow> world \<Rightarrow> py_error + world" where
  "show_daily_total rt sales w =
     (let (now, w1) = py_now rt w;
          today = date_of now
      in case daily_loop rt today sales 0 of
           Inl e \<Rightarrow> Inl e
         | Inr tot \<Rightarrow> Inr (py_print (DailyTotalLine tot) w1))"

subsection \<open>The report\<close>

text \<open>
  The built-in functions the report uses. \<^verbatim>\<open>sum\<close> adds from the left, starting at 0,
  each addition rounded (CPython up to 3.11; later versions compensate the rounding).
  \<^verbatim>\<open>max\<close> keeps the first item and replaces it by each later item that compares greater;
  \<^verbatim>\<open>min\<close> likewise with less; both raise \<^verbatim>\<open>ValueError\<close> on an empty list.
  \<^verbatim>\<open>statistics.mean\<close> raises \<^verbatim>\<open>StatisticsError\<close> when there is no value. It adds finite
  values as exact fractions, divides by their number and rounds once; as soon as a value
  is not finite, it adds the values that are not finite as floats and divides that.
\<close>

definition py_sum :: "pyfloat list \<Rightarrow> pyfloat" where
  "py_sum xs = foldl (+) 0 xs"

fun max_loop :: "pyfloat \<Rightarrow> pyfloat list \<Rightarrow> pyfloat" where
  "max_loop m [] = m"
| "max_loop m (x # xs) = max_loop (if fgt x m then x else m) xs"

fun min_loop :: "pyfloat \<Rightarrow> pyfloat list \<Rightarrow> pyfloat" where
  "min_loop m [] = m"
| "min_loop m (x # xs) = min_loop (if flt x m then x else m) xs"

definition py_max :: "pyfloat list \<Rightarrow> py_error + pyfloat" where
  "py_max xs = (case xs of [] \<Rightarrow> Inl ValueError | x # rest \<Rightarrow> Inr (max_loop x rest))"

definition py_min :: "pyfloat list \<Rightarrow> py_error + pyfloat" where
  "py_min xs = (case xs of [] \<Rightarrow> Inl ValueError | x # rest \<Rightarrow> Inr (min_loop x rest))"

definition mean :: "pyfloat list \<Rightarrow> py_error + pyfloat" where
  "mean xs =
     (if xs = [] then Inl StatisticsError
      else if list_all is_finite xs
      then Inr (round_double (sum_list (map exact_value xs) / of_nat (length xs)))
      else Inr (foldl (+) 0 (filter (\<lambda>x. \<not> is_finite x) xs)))"

text \<open>
  \<^verbatim>\<open>grouped_by_day\<close> is a \<^verbatim>\<open>defaultdict(float)\<close>: a dictionary in insertion order, in
  which a missing key reads as \<^verbatim>\<open>0.0\<close>.
\<close>

type_synonym day_dict = "(string \<times> pyfloat) list"

definition dict_get :: "day_dict \<Rightarrow> string \<Rightarrow> pyfloat" where
  "dict_get g k = (case map_of g k of None \<Rightarrow> 0 | Some v \<Rightarrow> v)"

fun dict_set :: "day_dict \<Rightarrow> string \<Rightarrow> pyfloat \<Rightarrow> day_dict" where
  "dict_set [] k v = [(k, v)]"
| "dict_set ((k', v') # g) k v = (if k' = k then (k', v) # g else (k', v') # dict_set g k v)"

fun group_loop :: "runtime \<Rightarrow> (datetime \<times> pyfloat) list \<Rightarrow> day_dict \<Rightarrow> day_dict" where
  "group_loop rt [] g = g"
| "group_loop rt ((sale_time, amount) # rest) g =
     group_loop rt rest
       (dict_set g (strftime rt ''%Y-%m-%d'' sale_time)
          (dict_get g (strftime rt ''%Y-%m-%d'' sale_time) + amount))"

fun collect_valid ::
  "runtime \<Rightarrow> json list \<Rightarrow> (datetime \<times> pyfloat) list \<Rightarrow> py_error + (datetime \<times> pyfloat) list" where
  "collect_valid rt [] valid_sales = Inr valid_sales"
| "collect_valid rt (r # rs) valid_sales =
     (case parse_sale_record rt r of
        Inl e \<Rightarrow> Inl e
      | Inr None \<Rightarrow> collect_valid rt rs valid_sales
      | Inr (Some parsed) \<Rightarrow> collect_valid rt rs (valid_sales @ [parsed]))"

text \<open>The statistics of a non-empty list of valid sales, read at the time \<open>now\<close>.\<close>

definition report_of ::
  "runtime \<Rightarrow> datetime \<Rightarrow> (datetime \<times> pyfloat) list \<Rightarrow> py_error + report" where
  "report_of rt now valid_sales =
     (let amounts = map snd valid_sales;
          tot = py_sum amounts
      in case mean amounts of
           Inl e \<Rightarrow> Inl e
         | Inr average \<Rightarrow>
             (case py_max amounts of
                Inl e \<Rightarrow> Inl e
              | Inr max_s \<Rightarrow>
                  (case py_min amounts of
                     Inl e \<Rightarrow> Inl e
                   | Inr min_s \<Rightarrow>
                       (let grouped_by_day = group_loop rt valid_sales []
                        in Inr \<lparr>generated_at = now,
                                total_records = length valid_sales,
                                total_sales = tot,
                                average_sale = average,
                                max_sale = max_s,
                                min_sale = min_s,
                                daily_totals =
                                  map (\<lambda>day. (day, dict_get grouped_by_day day))
                                    (sort (map fst grouped_by_day))\<rparr>))))"

definition generate_sales_report :: "runtime \<Rightarrow> json list \<Rightarrow> world \<Rightarrow> py_error + world" where
  "generate_sales_report rt sales w =
     (case collect_valid rt sales [] of
        Inl e \<Rightarrow> Inl e
      | Inr valid_sales \<Rightarrow>
          if valid_sales = []
          then Inr (py_print (Line ''No valid sales records found. Report was not generated.'') w)
          else
            (let (now1, w1) = py_now rt w
             in case report_of rt now1 valid_sales of
                  Inl e \<Rightarrow> Inl e
                | Inr report_text \<Rightarrow>
                    (let w2 = py_print (ReportLines report_text) w1;
                         w3 = w2\<lparr>reports_dir := True\<rparr>;
                         (now2, w4) = py_now rt w3;
                         report_path = strftime rt ''sales_report_%Y%m%d_%H%M%S.txt'' now2;
                         w5 = w4\<lparr>report_files := (report_files w4)(report_path \<mapsto> report_text)\<rparr>
                     in Inr (py_print (ReportSaved report_path) w5))))"

subsection \<open>The menu\<close>

definition print_menu :: "world \<Rightarrow> world" where
  "print_menu w =
     py_print (Line ''5. Exit'')
       (py_print (Line ''4. Generate Sales Report'')
         (py_print (Line ''3. Show Daily Total'')
           (py_print (Line ''2. View Sales'')
             (py_print (Line ''1. Add Sale'')
               (py_print (Line (CHR 0x0A # ''=== Admin Dashboard ==='')) w)))))"

function menu_iter :: "runtime \<Rightarrow> json list \<Rightarrow> world \<Rightarrow> py_error + world" where
  "menu_iter rt sales w =
     (case py_input ''Choose an option (1-5): '' (print_menu w) of
        Inl e \<Rightarrow> Inl e
      | Inr (l, w1) \<Rightarrow>
          (let choice = strip rt l in
           if choice = ''1'' then
             (case add_sale rt sales w1 of
                Inl e \<Rightarrow> Inl e
              | Inr (sales', w2) \<Rightarrow> menu_iter rt sales' w2)
           else if choice = ''2'' then
             (case view_sales rt sales w1 of
                Inl e \<Rightarrow> Inl e
              | Inr w2 \<Rightarrow> menu_iter rt sales w2)
           else if choice = ''3'' then
             (case show_daily_total rt sales w1 of
                Inl e \<Rightarrow> Inl e
              | Inr w2 \<Rightarrow> menu_iter rt sales w2)
           else if choice = ''4'' then
             (case generate_sales_report rt sales w1 of
                Inl e \<Rightarrow> Inl e
              | Inr w2 \<Rightarrow> menu_iter rt sales w2)
           else if choice = ''5'' then
             Inr (py_print (Line ''Exiting Sales Management System. Goodbye!'') w1)
           else
             menu_iter rt sales (py_print (Line ''Invalid choice. Please select 1, 2, 3, 4, or 5.'') w1)))"
  by pat_completeness auto
termination
proof (relation "measure (\<lambda>(rt, sales, w). length (stdin w))")
  have inp: "length (stdin w1) < length (stdin w)"
    if "py_input p (print_menu w) = Inr (l, w1)" for p w l w1
    using that by (auto simp: py_input_def print_menu_def py_print_def split: list.splits)
  have add: "length (stdin w2) \<le> length (stdin w1)"
    if "add_sale rt sales w1 = Inr (sales', w2)" for rt sales w1 sales' w2
    using that
    by (auto simp: add_sale_def py_input_def py_print_def py_now_def save_sales_data_def Let_def
             split: list.splits sum.splits if_splits prod.splits)
  have vl: "stdin w' = stdin w"
    if "view_loop rt rs i d w = Inr (d', w')" for rt rs i d w d' w'
    using that
    by (induction rs arbitrary: i d w) (auto simp: py_print_def split: sum.splits option.splits)
  have view: "stdin w2 = stdin w1" if "view_sales rt sales w1 = Inr w2" for rt sales w1 w2
    using that vl
    by (fastforce simp: view_sales_def py_print_def split: if_splits sum.splits prod.splits)
  have daily: "stdin w2 = stdin w1" if "show_daily_total rt sales w1 = Inr w2" for rt sales w1 w2
    using that
    by (auto simp: show_daily_total_def py_print_def py_now_def Let_def split: sum.splits prod.splits)
  have rep: "stdin w2 = stdin w1" if "generate_sales_report rt sales w1 = Inr w2" for rt sales w1 w2
    using that
    by (auto simp: generate_sales_report_def py_print_def py_now_def Let_def
             split: sum.splits prod.splits if_splits)
  show "wf (measure (\<lambda>(rt, sales, w). length (stdin w)))" by simp
  show "((rt, sales', w2), rt, sales, w) \<in> measure (\<lambda>(rt, sales, w). length (stdin w))"
    if "py_input ''Choose an option (1-5): '' (print_menu w) = Inr x2" "(l, w1) = x2"
       "add_sale rt sales w1 = Inr x2a" "(sales', w2) = x2a"
    for rt sales w x2 l w1 x2a sales' w2
    using that inp[of "''Choose an option (1-5): ''" w l w1] add[of rt sales w1 sales' w2] by auto
  show "((rt, sales, w2), rt, sales, w) \<in> measure (\<lambda>(rt, sales, w). length (stdin w))"
    if "py_input ''Choose an option (1-5): '' (print_menu w) = Inr x2" "(l, w1) = x2"
       "view_sales rt sales w1 = Inr w2"
    for rt sales w x2 l w1 w2
    using that inp[of "''Choose an option (1-5): ''" w l w1] view[of rt sales w1 w2] by auto
  show "((rt, sales, w2), rt, sales, w) \<in> measure (\<lambda>(rt, sales, w). length (stdin w))"
    if "py_input ''Choose an option (1-5): '' (print_menu w) = Inr x2" "(l, w1) = x2"
       "show_daily_total rt sales w1 = Inr w2"
    for rt sales w x2 l w1 w2
    using that inp[of "''Choose an option (1-5): ''" w l w1] daily[of rt sales w1 w2] by auto
  show "((rt, sales, w2), rt, sales, w) \<in> measure (\<lambda>(rt, sales, w). length (stdin w))"
    if "py_input ''Choose an option (1-5): '' (print_menu w) = Inr x2" "(l, w1) = x2"
       "generate_sales_report rt sales w1 = Inr w2"
    for rt sales w x2 l w1 w2
    using that inp[of "''Choose an option (1-5): ''" w l w1] rep[of rt sales w1 w2] by auto
  show "((rt, sales, py_print (Line ''Invalid choice. Please select 1, 2, 3, 4, or 5.'') w1), rt, sales, w)
          \<in> measure (\<lambda>(rt, sales, w). length (stdin w))"
    if "py_input ''Choose an option (1-5): '' (print_menu w) = Inr x2" "(l, w1) = x2"
    for rt :: runtime and sales :: "json list" and w x2 l w1
    using that inp[of "''Choose an option (1-5): ''" w l w1] by (auto simp: py_print_def)
qed

definition menu_loop :: "runtime \<Rightarrow> world \<Rightarrow> py_error + world" where
  "menu_loop rt w =
     (case load_sales_data rt w of
        Inl e \<Rightarrow> Inl e
      | Inr sales \<Rightarrow> menu_iter rt sales w)"

definition main :: "runtime \<Rightarrow> world \<Rightarrow> py_error + world" where
  "main rt w =
     (case authenticate rt w of
        Inl e \<Rightarrow> Inl e
      | Inr (ok, w1) \<Rightarrow> if ok then menu_loop rt w1 else Inr w1)"

section \<open>A runtime to run the model on\<close>

text \<open>
  A concrete runtime for evaluating the program on examples. Each function reads part of
  what Python's does, and gives there what Python gives on Linux:
  \<^item> \<open>py_strip\<close> removes the white space of \<^verbatim>\<open>str.isspace\<close>, a text being its UTF-8 bytes;
  \<^item> \<open>simple_float\<close> reads a sign followed by \<^verbatim>\<open>nan\<close>, \<^verbatim>\<open>inf\<close> or decimal digits with an
    optional fraction, and rounds to the nearest double;
  \<^item> \<open>iso_seconds\<close> reads \<^verbatim>\<open>YYYY-MM-DD\<close> alone or followed by any one byte and
    \<^verbatim>\<open>HH:MM:SS\<close>;
  \<^item> \<open>simple_str\<close> writes \<^verbatim>\<open>None\<close>, the booleans and the integers; the text of a float, a
    list or a dict is not modelled and is left empty, which no function here reads as a
    time stamp;
  \<^item> \<open>strftime_linux\<close> knows the directives \<^verbatim>\<open>%Y %m %d %H %M %S\<close>, the year unpadded;
  \<^item> the JSON codec is a table of documents with their text.
\<close>

definition is_space :: "char \<Rightarrow> bool" where
  "is_space c = (let n = (of_char c :: nat) in (9 \<le> n \<and> n \<le> 13) \<or> (28 \<le> n \<and> n \<le> 32))"

text \<open>The encodings of U+0085 and U+00A0, and of U+1680, U+2000 to U+200A, U+2028, U+2029,
  U+202F, U+205F and U+3000.\<close>

definition is_space2 :: "char \<Rightarrow> char \<Rightarrow> bool" where
  "is_space2 a b = (a = CHR 0xC2 \<and> (b = CHR 0x85 \<or> b = CHR 0xA0))"

definition is_space3 :: "char \<Rightarrow> char \<Rightarrow> char \<Rightarrow> bool" where
  "is_space3 a b c =
     (let n = (of_char c :: nat) in
        (a = CHR 0xE1 \<and> b = CHR 0x9A \<and> c = CHR 0x80)
      \<or> (a = CHR 0xE2 \<and> b = CHR 0x80
           \<and> ((0x80 \<le> n \<and> n \<le> 0x8A) \<or> n = 0xA8 \<or> n = 0xA9 \<or> n = 0xAF))
      \<or> (a = CHR 0xE2 \<and> b = CHR 0x81 \<and> c = CHR 0x9F)
      \<or> (a = CHR 0xE3 \<and> b = CHR 0x80 \<and> c = CHR 0x80))"

text \<open>Dropping white space from the front of a text, or, with \<open>back\<close>, from the front of a
  reversed text, where the bytes of a character come last byte first.\<close>

fun strip_front :: "bool \<Rightarrow> string \<Rightarrow> string" where
  "strip_front back (a # b # c # r) =
     (if is_space a then strip_front back (b # c # r)
      else if (if back then is_space2 b a else is_space2 a b) then strip_front back (c # r)
      else if (if back then is_space3 c b a else is_space3 a b c) then strip_front back r
      else a # b # c # r)"
| "strip_front back [a, b] =
     (if is_space a then strip_front back [b]
      else if (if back then is_space2 b a else is_space2 a b) then []
      else [a, b])"
| "strip_front back [a] = (if is_space a then [] else [a])"
| "strip_front back [] = []"

definition py_strip :: "string \<Rightarrow> string" where
  "py_strip s = rev (strip_front True (rev (strip_front False s)))"

definition is_digit :: "char \<Rightarrow> bool" where
  "is_digit c = (let n = (of_char c :: nat) in 48 \<le> n \<and> n \<le> 57)"

definition nat_of_digits :: "string \<Rightarrow> nat" where
  "nat_of_digits ds = foldl (\<lambda>n c. 10 * n + (of_char c - 48)) 0 ds"

definition unsigned_float :: "string \<Rightarrow> pyfloat option" where
  "unsigned_float s =
     (if s = ''nan'' then Some NaN
      else if s = ''inf'' then Some PInf
      else
        (let ip = takeWhile is_digit s; r = dropWhile is_digit s
         in if r = [] then (if ip = [] then None else Some (round_double (of_nat (nat_of_digits ip))))
            else if hd r = CHR ''.'' \<and> list_all is_digit (tl r) \<and> (ip \<noteq> [] \<or> tl r \<noteq> [])
            then Some (round_double (of_nat (nat_of_digits ip)
                            + of_nat (nat_of_digits (tl r)) / 10 ^ length (tl r)))
            else None))"

fun fneg :: "pyfloat \<Rightarrow> pyfloat" where
  "fneg (Fin a) = Fin (- a)"
| "fneg PInf = NInf"
| "fneg NInf = PInf"
| "fneg NaN = NaN"

definition simple_float :: "string \<Rightarrow> pyfloat option" where
  "simple_float s =
     (case s of
        [] \<Rightarrow> None
      | c # r \<Rightarrow>
          if c = CHR ''-'' then map_option fneg (unsigned_float r)
          else if c = CHR ''+'' then unsigned_float r
          else unsigned_float s)"

definition days_in_month :: "nat \<Rightarrow> nat \<Rightarrow> nat" where
  "days_in_month y m =
     (if m = 2 then (if y mod 4 = 0 \<and> (y mod 100 \<noteq> 0 \<or> y mod 400 = 0) then 29 else 28)
      else if m = 4 \<or> m = 6 \<or> m = 9 \<or> m = 11 then 30
      else 31)"

definition iso_seconds :: "string \<Rightarrow> datetime option" where
  "iso_seconds s =
     (let timed = (length s = 19) in
      if (length s = 10 \<or> (timed \<and> s ! 13 = CHR '':'' \<and> s ! 16 = CHR '':''))
         \<and> s ! 4 = CHR ''-'' \<and> s ! 7 = CHR ''-''
         \<and> list_all is_digit (take 4 s @ take 2 (drop 5 s) @ take 2 (drop 8 s)
                                @ take 2 (drop 11 s) @ take 2 (drop 14 s) @ take 2 (drop 17 s))
      then
        (let y = nat_of_digits (take 4 s);
             mo = nat_of_digits (take 2 (drop 5 s));
             d = nat_of_digits (take 2 (drop 8 s));
             h = nat_of_digits (take 2 (drop 11 s));
             mi = nat_of_digits (take 2 (drop 14 s));
             se = nat_of_digits (take 2 (drop 17 s))
         in if 1 \<le> y \<and> 1 \<le> mo \<and> mo \<le> 12 \<and> 1 \<le> d \<and> d \<le> days_in_month y mo
               \<and> h < 24 \<and> mi < 60 \<and> se < 60
            then Some \<lparr>dt_year = y, dt_month = mo, dt_day = d, dt_hour = h, dt_minute = mi,
                        dt_second = se, dt_microsecond = 0\<rparr>
            else None)
      else None)"

fun dec_digits :: "nat \<Rightarrow> string" where
  "dec_digits n = (if n < 10 then [digit_char n] else dec_digits (n div 10) @ [digit_char n])"

declare dec_digits.simps [simp del]

definition simple_str :: "json \<Rightarrow> string" where
  "simple_str v =
     (case v of
        JNull \<Rightarrow> ''None''
      | JBool b \<Rightarrow> (if b then ''True'' else ''False'')
      | JInt n \<Rightarrow> (if n < 0 then ''-'' @ dec_digits (nat (- n)) else dec_digits (nat n))
      | _ \<Rightarrow> [])"

definition directive :: "char \<Rightarrow> datetime \<Rightarrow> string" where
  "directive c t =
     (if c = CHR ''Y'' then dec_digits (dt_year t)
      else if c = CHR ''m'' then pad2 (dt_month t)
      else if c = CHR ''d'' then pad2 (dt_day t)
      else if c = CHR ''H'' then pad2 (dt_hour t)
      else if c = CHR ''M'' then pad2 (dt_minute t)
      else if c = CHR ''S'' then pad2 (dt_second t)
      else [CHR ''%'', c])"

fun strftime_linux :: "string \<Rightarrow> datetime \<Rightarrow> string" where
  "strftime_linux (a # b # r) t =
     (if a = CHR ''%'' then directive b t @ strftime_linux r t
      else a # strftime_linux (b # r) t)"
| "strftime_linux [a] t = [a]"
| "strftime_linux [] t = []"

declare strftime_linux.simps [simp del]

definition noon :: "nat \<Rightarrow> datetime" where
  "noon n = \<lparr>dt_year = 2024, dt_month = 1, dt_day = 2, dt_hour = 12, dt_minute = 0,
             dt_second = n mod 60, dt_microsecond = 0\<rparr>"

definition ref_runtime :: "(json \<times> string) list \<Rightarrow> runtime" where
  "ref_runtime docs =
     \<lparr>float_of_str = simple_float,
      fromisoformat = iso_seconds,
      str_of = simple_str,
      strip = py_strip,
      strftime = strftime_linux,
      json_loads = (\<lambda>s. case map_of (map (\<lambda>(v, t). (t, v)) docs) s of
                           None \<Rightarrow> Inl JSONDecodeError | Some v \<Rightarrow> Inr v),
      json_dumps = (\<lambda>v. case map_of docs v of None \<Rightarrow> ''null'' | Some t \<Rightarrow> t),
      clock = noon\<rparr>"

definition empty_world :: world where
  "empty_world =
     \<lparr>stdin = [], stdout = [], env_admin_password = None, data_file = None,
      reports_dir = False, report_files = Map.empty, ticks = 0\<rparr>"


section \<open>Notions used to state the properties\<close>

text \<open>The valid records of a list, in order: those on which the validator returns a pair.\<close>

definition valid_records :: "runtime \<Rightarrow> json list \<Rightarrow> (datetime \<times> pyfloat) list" where
  "valid_records rt sales =
     concat (map (\<lambda>r. case parse_sale_record rt r of Inr (Some p) \<Rightarrow> [p] | _ \<Rightarrow> []) sales)"

text \<open>The validator returns on every record of the list, with a pair or with \<open>None\<close>.\<close>

definition validator_returns :: "runtime \<Rightarrow> json list \<Rightarrow> bool" where
  "validator_returns rt sales = (\<forall>r \<in> set sales. \<exists>res. parse_sale_record rt r = Inr res)"

text \<open>Records as a data file can hold them: a well-formed time stamp, and for the amount an
  integer of 401 digits, positive or negative.\<close>

definition huge_amount_record :: json where
  "huge_amount_record =
     JObj [(''timestamp'', JStr ''2024-01-01T00:00:00''), (''amount'', JInt (10 ^ 400))]"

definition huge_negative_record :: json where
  "huge_negative_record =
     JObj [(''timestamp'', JStr ''2024-01-01T00:00:00''), (''amount'', JInt (- (10 ^ 400)))]"

text \<open>The amounts of the valid records of a date, and of a day as the report writes it, in
  the order of the list.\<close>

definition date_amounts :: "date \<Rightarrow> (datetime \<times> pyfloat) list \<Rightarrow> pyfloat list" where
  "date_amounts today valid = map snd (filter (\<lambda>(t, a). date_of t = today) valid)"







subsection \<open>Example data\<close>

text \<open>A record as \<^verbatim>\<open>add_sale\<close> writes it, with a given time stamp.\<close>

definition sale :: "string \<Rightarrow> pyfloat \<Rightarrow> json" where
  "sale ts a = JObj [(''amount'', JFloat a), (''timestamp'', JStr ts)]"

definition example_sales :: "json list" where
  "example_sales =
     [sale ''2024-01-01T09:00:00'' (Fin 10),
      sale ''2024-01-01T17:30:00'' (Fin 5),
      sale ''2024-01-02T10:15:00'' (Fin 3)]"




definition negative_sales :: "json list" where
  "negative_sales =
     [sale ''2024-01-01T10:00:00'' (Fin 1), sale ''2024-01-01T09:00:00'' (Fin (- 5))]"

definition day1_0000 :: datetime where
  "day1_0000 = \<lparr>dt_year = 2024, dt_month = 1, dt_day = 1, dt_hour = 0, dt_minute = 0,
      dt_second = 0, dt_microsecond = 0\<rparr>"

definition day1_0900 :: datetime where
  "day1_0900 = \<lparr>dt_year = 2024, dt_month = 1, dt_day = 1, dt_hour = 9, dt_minute = 0,
      dt_second = 0, dt_microsecond = 0\<rparr>"

definition day1_1000 :: datetime where
  "day1_1000 = \<lparr>dt_year = 2024, dt_month = 1, dt_day = 1, dt_hour = 10, dt_minute = 0,
      dt_second = 0, dt_microsecond = 0\<rparr>"

definition day1_1730 :: datetime where
  "day1_1730 = \<lparr>dt_year = 2024, dt_month = 1, dt_day = 1, dt_hour = 17, dt_minute = 30,
      dt_second = 0, dt_microsecond = 0\<rparr>"

definition day2_1015 :: datetime where
  "day2_1015 = \<lparr>dt_year = 2024, dt_month = 1, dt_day = 2, dt_hour = 10, dt_minute = 15,
      dt_second = 0, dt_microsecond = 0\<rparr>"

text \<open>Three passwords, the third of which is the default password after a space, and then
  the menu choice 5.\<close>

definition spaced_login :: world where
  "spaced_login = empty_world\<lparr>stdin := [''letmein'', ''password'', '' admin123'', ''5'']\<rparr>"


section \<open>Properties of float arithmetic\<close>

lemma ilog2_le: "0 < n \<Longrightarrow> 2 ^ ilog2 n \<le> n"
proof (induction n rule: ilog2.induct)
  case (1 n)
  show ?case
  proof (cases "n < 2")
    case True
    with "1.prems" show ?thesis by (simp add: ilog2.simps)
  next
    case False
    then have "0 < n div 2" by simp
    with False "1.IH" have "2 ^ ilog2 (n div 2) \<le> n div 2" by simp
    then have "2 * 2 ^ ilog2 (n div 2) \<le> 2 * (n div 2)" by simp
    also have "\<dots> \<le> n" by simp
    finally show ?thesis using False by (simp add: ilog2.simps[of n])
  qed
qed

lemma round_half_even_of_int: "round_half_even (of_int k) = k"
  by (simp add: round_half_even_def)

lemma round_double_of_int:
  assumes "\<bar>n\<bar> < 2 ^ 53"
  shows "round_double (of_int n) = Fin (of_int n)"
proof (cases "n = 0")
  case True
  then show ?thesis by (simp add: round_double_def)
next
  case False
  define m where "m = nat \<bar>n\<bar>"
  define d where "d = 52 - ilog2 m"
  have m: "0 < m" "m < 2 ^ 53" "\<bar>of_int n :: real\<bar> = of_nat m"
    using False assms by (simp_all add: m_def nat_less_iff)
  have "(2::nat) ^ ilog2 m < 2 ^ 53" using ilog2_le[OF m(1)] m(2) by linarith
  then have "ilog2 m < 53" by (rule power_less_imp_less_exp[rotated]) simp
  then have le: "ilog2 m \<le> 52" by simp
  have fl: "floor_log2 (of_nat m) = int (ilog2 m)"
    using m(1) by (simp add: floor_log2_def)
  have p: "max (floor_log2 (of_nat m) - 52) (- 1074) = - int d"
    using le by (simp add: fl d_def)
  have pw: "pow2 (- int d) = 1 / 2 ^ d"
    by (simp add: pow2_def)
  have q: "real m / (1 / 2 ^ d) = of_int (int m * 2 ^ d)" by simp
  have r: "of_int (round_half_even (real m / pow2 (- int d))) * pow2 (- int d) = real m"
    unfolding pw q round_half_even_of_int by simp
  have small: "\<not> pow2 1024 \<le> real m"
  proof -
    have "real m < 2 ^ 53" using m(2) by (metis of_nat_less_iff of_nat_numeral of_nat_power)
    also have "\<dots> \<le> (2::real) ^ 1024" by (rule power_increasing) simp_all
    finally show ?thesis by (simp add: pow2_def)
  qed
  have pos: "0 < n \<Longrightarrow> real m = of_int n" and neg: "\<not> 0 < n \<Longrightarrow> - real m = of_int n"
    by (simp_all add: m_def)
  show ?thesis
    unfolding round_double_def Let_def m(3) p r
    using False small pos neg by simp
qed

lemma fadd_of_int:
  "\<bar>a + b\<bar> < 2 ^ 53 \<Longrightarrow> Fin (of_int a) + Fin (of_int b) = Fin (of_int (a + b))"
  using round_double_of_int[of "a + b"] by (simp add: plus_pyfloat_def)

lemma round_double_numeral:
  "(numeral k :: int) < 2 ^ 53 \<Longrightarrow> round_double (numeral k) = Fin (numeral k)"
  using round_double_of_int[of "numeral k"] by simp

lemma round_double_neg_numeral:
  "(numeral k :: int) < 2 ^ 53 \<Longrightarrow> round_double (- numeral k) = Fin (- numeral k)"
  using round_double_of_int[of "- numeral k"] by simp

text \<open>Integers below \<open>2^53\<close> are added exactly; beyond, a sum is rounded, and it overflows to
  infinity.\<close>

lemma fadd_rounds: "Fin (10 ^ 16) + Fin 1 = Fin (10 ^ 16)"
proof -
  have f: "floor_log2 10000000000000001 = 53"
    by (simp add: floor_log2_def ilog2.simps)
  show ?thesis
    by (simp add: plus_pyfloat_def round_double_def pow2_def round_half_even_def Let_def f)
qed

lemma ilog2_power: "ilog2 (2 ^ k) = k"
  by (induction k) (simp_all add: ilog2.simps)

lemma floor_log2_power: "floor_log2 (2 ^ k) = int k"
proof -
  have "\<lfloor>(2::real) ^ k\<rfloor> = 2 ^ k" by (metis floor_of_int of_int_numeral of_int_power)
  then have "nat \<lfloor>(2::real) ^ k\<rfloor> = 2 ^ k" by (simp add: nat_power_eq)
  then show ?thesis unfolding floor_log2_def by (simp only: ilog2_power one_le_power one_le_numeral if_True)
qed

lemma fadd_overflows: "Fin (2 ^ 1023) + Fin (2 ^ 1023) = PInf"
proof -
  have s: "(2::real) ^ 1023 + 2 ^ 1023 = 2 ^ 1024" by simp
  have a: "\<bar>(2::real) ^ 1024\<bar> = 2 ^ 1024" by simp
  have "round_double (2 ^ 1024) = PInf"
    unfolding round_double_def Let_def a floor_log2_power
    by (simp add: pow2_def round_half_even_def)
  then show ?thesis by (simp only: plus_pyfloat_def fadd.simps s)
qed

text \<open>The sum of the doubles nearest to 0.1 and 0.2 is the double above 0.3.\<close>

lemma tenth_plus_fifth:
  "Fin (3602879701896397 / 36028797018963968) + Fin (3602879701896397 / 18014398509481984)
     = Fin (5404319552844596 / 18014398509481984)"
proof -
  have s: "(3602879701896397 / 36028797018963968 + 3602879701896397 / 18014398509481984 :: real)
             = 10808639105689191 / 36028797018963968"
    by simp
  have f: "floor_log2 (10808639105689191 / 36028797018963968) = - 2"
    by (simp add: floor_log2_def ilog2.simps)
  have "round_double (10808639105689191 / 36028797018963968) = Fin (5404319552844596 / 18014398509481984)"
    unfolding round_double_def Let_def
    by (simp add: f pow2_def round_half_even_def)
  then show ?thesis by (simp only: plus_pyfloat_def fadd.simps s)
qed

text \<open>Rounding keeps a number of magnitude 1 or more away from zero.\<close>

lemma round_half_even_ge: "1 \<le> x \<Longrightarrow> 1 \<le> round_half_even x"
proof -
  assume "1 \<le> x"
  then have "1 \<le> \<lfloor>x\<rfloor>" by simp
  then show ?thesis by (simp add: round_half_even_def Let_def)
qed

lemma pow2_pos: "0 < pow2 k"
  by (simp add: pow2_def)

lemma pow2_floor_log2_le:
  assumes "1 \<le> a"
  shows "pow2 (floor_log2 a) \<le> a"
proof -
  let ?m = "nat \<lfloor>a\<rfloor>"
  have m: "0 < ?m" using assms by simp
  have "real (2 ^ ilog2 ?m) \<le> real ?m" using ilog2_le[OF m] by (simp only: of_nat_le_iff)
  also have "\<dots> \<le> a" using assms by simp
  finally show ?thesis using assms by (simp add: floor_log2_def pow2_def)
qed

lemma rounded_magnitude_pos:
  assumes "1 \<le> a"
  shows "0 < of_int (round_half_even (a / pow2 (max (floor_log2 a - 52) (- 1074))))
           * pow2 (max (floor_log2 a - 52) (- 1074))"
proof -
  let ?p = "max (floor_log2 a - 52) (- 1074)"
  have e: "0 \<le> floor_log2 a" using assms by (simp add: floor_log2_def)
  have "pow2 ?p \<le> a"
  proof (cases "?p \<le> 0")
    case True
    then have "pow2 ?p \<le> 1" by (auto simp: pow2_def field_simps)
    with assms show ?thesis by linarith
  next
    case False
    then have "pow2 ?p \<le> pow2 (floor_log2 a)"
      using e by (auto simp: pow2_def max_def intro!: power_increasing split: if_splits)
    with pow2_floor_log2_le[OF assms] show ?thesis by linarith
  qed
  then have "1 \<le> a / pow2 ?p" using pow2_pos[of ?p] by (simp add: field_simps)
  then have "1 \<le> round_half_even (a / pow2 ?p)" by (rule round_half_even_ge)
  then have "0 < (of_int (round_half_even (a / pow2 ?p)) :: real)" by simp
  then show ?thesis using pow2_pos[of ?p] by simp
qed

lemma round_double_negative: "q \<le> - 1 \<Longrightarrow> flt (round_double q) 0"
  using rounded_magnitude_pos[of "\<bar>q\<bar>"]
  by (simp add: round_double_def Let_def zero_pyfloat_def)

section \<open>Properties of the validator\<close>

lemma caught_list_ex: "caught cs e = list_ex (is_subclass e) cs"
  by (simp add: caught_def list_ex_iff)

lemma py_getitem_error: "py_getitem r k = Inl e \<Longrightarrow> e = KeyError \<or> e = TypeError"
  by (cases r) (auto split: option.splits)

lemma py_float_error:
  "py_float rt v = Inl e \<Longrightarrow>
     e = TypeError \<or> e = ValueError
     \<or> (e = OverflowError \<and> (\<exists>n. v = JInt n \<and> float_max_int \<le> \<bar>n\<bar>))"
  by (cases v) (auto split: option.splits if_splits)

lemma parse_body_error:
  assumes "parse_body rt r = Inl e"
  shows "e = KeyError \<or> e = TypeError \<or> e = ValueError
         \<or> (e = OverflowError \<and> (\<exists>tv n. py_getitem r ''timestamp'' = Inr tv
               \<and> py_getitem r ''amount'' = Inr (JInt n) \<and> float_max_int \<le> \<bar>n\<bar>))"
  using assms
  by (auto simp: parse_body_def Let_def split: sum.splits option.splits
           dest: py_getitem_error py_float_error)

text \<open>The validator raises in one case only: the record has a time stamp, and its amount is
  an integer too large for a double. The exception is then \<^verbatim>\<open>OverflowError\<close>.\<close>

lemma parse_sale_record_raises:
  "parse_sale_record rt r = Inl e \<longleftrightarrow>
     e = OverflowError \<and> (\<exists>tv n. py_getitem r ''timestamp'' = Inr tv
        \<and> py_getitem r ''amount'' = Inr (JInt n) \<and> float_max_int \<le> \<bar>n\<bar>)"
proof
  assume "parse_sale_record rt r = Inl e"
  then obtain e' where b: "parse_body rt r = Inl e'"
    and c: "\<not> caught [KeyError, TypeError, ValueError] e'" and d: "e = e'"
    by (auto simp: parse_sale_record_def split: sum.splits if_splits)
  from parse_body_error[OF b] c d
  show "e = OverflowError \<and> (\<exists>tv n. py_getitem r ''timestamp'' = Inr tv
        \<and> py_getitem r ''amount'' = Inr (JInt n) \<and> float_max_int \<le> \<bar>n\<bar>)"
    by (auto simp: caught_list_ex)
next
  assume "e = OverflowError \<and> (\<exists>tv n. py_getitem r ''timestamp'' = Inr tv
        \<and> py_getitem r ''amount'' = Inr (JInt n) \<and> float_max_int \<le> \<bar>n\<bar>)"
  then show "parse_sale_record rt r = Inl e"
    by (auto simp: parse_sale_record_def parse_body_def caught_list_ex)
qed

text \<open>When the validator rejects: the time stamp or the amount is missing, or the amount
  cannot be made a float, or the time stamp does not parse.\<close>

lemma parse_sale_record_rejects:
  "parse_sale_record rt r = Inr None \<longleftrightarrow>
     (\<exists>e. py_getitem r ''timestamp'' = Inl e)
     \<or> (\<exists>tv. py_getitem r ''timestamp'' = Inr tv
          \<and> ((\<exists>e. py_getitem r ''amount'' = Inl e)
             \<or> (\<exists>av. py_getitem r ''amount'' = Inr av
                  \<and> (py_float rt av = Inl TypeError \<or> py_float rt av = Inl ValueError
                      \<or> ((\<exists>a. py_float rt av = Inr a)
                          \<and> fromisoformat rt (py_str rt tv) = None)))))"
  by (auto simp: parse_sale_record_def parse_body_def caught_list_ex Let_def
           split: sum.splits option.splits dest: py_getitem_error py_float_error)

lemma parse_sale_record_accepts:
  "parse_sale_record rt r = Inr (Some (t, a)) \<longleftrightarrow>
     (\<exists>tv av. py_getitem r ''timestamp'' = Inr tv \<and> py_getitem r ''amount'' = Inr av
        \<and> py_float rt av = Inr a \<and> fromisoformat rt (py_str rt tv) = Some t)"
  by (auto simp: parse_sale_record_def parse_body_def caught_list_ex Let_def
           split: sum.splits option.splits)

lemma parse_huge: "parse_sale_record rt huge_amount_record = Inl OverflowError"
  by (simp add: huge_amount_record_def parse_sale_record_def parse_body_def py_str_def
        caught_list_ex float_max_int_def)

text \<open>
  C6. The validator is meant never to throw. On \<open>huge_amount_record\<close> it does: the time
  stamp is read, \<^verbatim>\<open>float\<close> of the 401-digit integer raises \<^verbatim>\<open>OverflowError\<close>, and the
  handler, which names \<^verbatim>\<open>KeyError\<close>, \<^verbatim>\<open>TypeError\<close> and \<^verbatim>\<open>ValueError\<close>, lets it through.
  This holds for every runtime.
\<close>

theorem validator_throws_on_huge_amount:
  "parse_sale_record rt huge_amount_record = Inl OverflowError"
  by (simp add: huge_amount_record_def parse_sale_record_def parse_body_def py_str_def
        caught_list_ex float_max_int_def)

section \<open>Properties of the daily total\<close>

lemma valid_records_Nil: "valid_records rt [] = []"
  by (simp add: valid_records_def)

lemma valid_records_Cons:
  "valid_records rt (r # rs) =
     (case parse_sale_record rt r of Inr (Some p) \<Rightarrow> [p] | _ \<Rightarrow> []) @ valid_records rt rs"
  by (simp add: valid_records_def)

lemma validator_returns_Cons:
  "validator_returns rt (r # rs) \<longleftrightarrow>
     (\<exists>res. parse_sale_record rt r = Inr res) \<and> validator_returns rt rs"
  by (simp add: validator_returns_def)

lemma valid_records_mem:
  "r \<in> set sales \<Longrightarrow> parse_sale_record rt r = Inr (Some (t, a))
   \<Longrightarrow> (t, a) \<in> set (valid_records rt sales)"
  by (induction sales) (auto simp: valid_records_Cons)

lemma daily_loop_sum:
  "validator_returns rt sales \<Longrightarrow>
   daily_loop rt today sales tot =
     Inr (foldl (+) tot (date_amounts today (valid_records rt sales)))"
proof (induction sales arbitrary: tot)
  case Nil
  then show ?case by (simp add: valid_records_Nil date_amounts_def)
next
  case (Cons r rs)
  then obtain res where r: "parse_sale_record rt r = Inr res" and rs: "validator_returns rt rs"
    by (auto simp: validator_returns_Cons)
  show ?case
  proof (cases res)
    case None
    with r rs Cons.IH show ?thesis by (simp add: valid_records_Cons date_amounts_def)
  next
    case (Some p)
    obtain t a where p: "p = (t, a)" by (cases p)
    with Some r rs Cons.IH show ?thesis
      by (simp add: valid_records_Cons date_amounts_def)
  qed
qed

lemma daily_loop_raises:
  "\<not> validator_returns rt sales \<Longrightarrow> daily_loop rt today sales tot = Inl OverflowError"
proof (induction sales arbitrary: tot)
  case Nil
  then show ?case by (simp add: validator_returns_def)
next
  case (Cons r rs)
  show ?case
  proof (cases "parse_sale_record rt r")
    case (Inl e)
    then have "e = OverflowError" by (simp add: parse_sale_record_raises)
    with Inl show ?thesis by simp
  next
    case (Inr res)
    with Cons.prems have "\<not> validator_returns rt rs" by (simp add: validator_returns_Cons)
    with Inr Cons.IH show ?thesis by (cases res) (auto split: prod.splits)
  qed
qed

text \<open>
  Where the validator returns on every record, the daily total is Python's sum of the
  amounts of the valid records of that day, in particular 0 when there is none; one clock
  reading is taken and one line printed.
\<close>

lemma show_daily_total_sum:
  assumes "validator_returns rt sales"
  shows "show_daily_total rt sales w =
     Inr (w\<lparr>ticks := Suc (ticks w),
            stdout := stdout w @ [DailyTotalLine (py_sum
               (date_amounts (date_of (clock rt (ticks w))) (valid_records rt sales)))]\<rparr>)"
  using daily_loop_sum[OF assms, of "date_of (clock rt (ticks w))" 0]
  by (simp add: show_daily_total_def py_now_def py_print_def py_sum_def)

lemma show_daily_total_zero:
  assumes "validator_returns rt sales"
    and "date_amounts (date_of (clock rt (ticks w))) (valid_records rt sales) = []"
  shows "show_daily_total rt sales w =
     Inr (w\<lparr>ticks := Suc (ticks w), stdout := stdout w @ [DailyTotalLine (Fin 0)]\<rparr>)"
  using assms by (simp add: show_daily_total_sum py_sum_def zero_pyfloat_def)

text \<open>
  C2. Invalid records are meant to be skipped without aborting. A list that holds
  \<open>huge_amount_record\<close> anywhere aborts the daily total with \<^verbatim>\<open>OverflowError\<close>,
  whatever the other records, the date and the runtime: no total is printed.
\<close>

theorem daily_total_aborts_on_huge_amount:
  "show_daily_total rt (before @ huge_amount_record # after) w = Inl OverflowError"
proof -
  have "\<not> validator_returns rt (before @ huge_amount_record # after)"
    by (simp add: validator_returns_def parse_huge)
  then show ?thesis
    by (simp add: show_daily_total_def py_now_def daily_loop_raises)
qed

section \<open>Properties of the report\<close>

lemma collect_valid_ok:
  "validator_returns rt sales \<Longrightarrow> collect_valid rt sales acc = Inr (acc @ valid_records rt sales)"
proof (induction sales arbitrary: acc)
  case Nil
  then show ?case by (simp add: valid_records_Nil)
next
  case (Cons r rs)
  then obtain res where r: "parse_sale_record rt r = Inr res" and rs: "validator_returns rt rs"
    by (auto simp: validator_returns_Cons)
  with Cons.IH show ?case by (cases res) (simp_all add: valid_records_Cons)
qed

lemma collect_valid_raises:
  "\<not> validator_returns rt sales \<Longrightarrow> collect_valid rt sales acc = Inl OverflowError"
proof (induction sales arbitrary: acc)
  case Nil
  then show ?case by (simp add: validator_returns_def)
next
  case (Cons r rs)
  show ?case
  proof (cases "parse_sale_record rt r")
    case (Inl e)
    then have "e = OverflowError" by (simp add: parse_sale_record_raises)
    with Inl show ?thesis by simp
  next
    case (Inr res)
    with Cons.prems have "\<not> validator_returns rt rs" by (simp add: validator_returns_Cons)
    with Inr Cons.IH show ?thesis by (cases res) auto
  qed
qed

text \<open>Where the validator rejects every record, the report is not generated: one line is
  printed, and nothing else changes.\<close>

lemma report_no_data:
  assumes "\<forall>r \<in> set sales. parse_sale_record rt r = Inr None"
  shows "generate_sales_report rt sales w =
           Inr (w\<lparr>stdout := stdout w @ [Line ''No valid sales records found. Report was not generated.'']\<rparr>)"
proof -
  have ret: "validator_returns rt sales" using assms by (simp add: validator_returns_def)
  have "valid_records rt sales = []" using assms by (simp add: valid_records_def)
  with collect_valid_ok[OF ret, of "[]"] show ?thesis
    by (simp add: generate_sales_report_def py_print_def)
qed

text \<open>
  C3. A list in which no record validates is meant to give the "no data" line. The list
  of \<open>huge_amount_record\<close> alone has no valid record, and the report aborts with
  \<^verbatim>\<open>OverflowError\<close> instead: no line is printed.
\<close>

theorem report_aborts_on_huge_amount:
  "valid_records rt [huge_amount_record] = []
   \<and> generate_sales_report rt [huge_amount_record] w = Inl OverflowError"
  by (simp add: valid_records_def generate_sales_report_def parse_huge)

subsection \<open>Maximum and minimum\<close>













subsection \<open>The totals by day\<close>















subsection \<open>The examples\<close>

lemma ref_clock: "clock (ref_runtime docs) = noon"
  by (simp add: ref_runtime_def)


lemma parse_sale:
  "iso_seconds ts = Some t \<Longrightarrow> parse_sale_record (ref_runtime docs) (sale ts a) = Inr (Some (t, a))"
  by (simp add: parse_sale_record_accepts sale_def ref_runtime_def py_str_def)

lemma iso_examples:
  "iso_seconds ''2024-01-01T00:00:00'' = Some day1_0000"
  "iso_seconds ''2024-01-01T09:00:00'' = Some day1_0900"
  "iso_seconds ''2024-01-01T17:30:00'' = Some day1_1730"
  "iso_seconds ''2024-01-02T10:15:00'' = Some day2_1015"
  "iso_seconds ''2024-01-01T10:00:00'' = Some day1_1000"
  by (simp_all add: iso_seconds_def is_digit_def nat_of_digits_def days_in_month_def
        day1_0000_def day1_0900_def day1_1000_def day1_1730_def day2_1015_def)















section \<open>Negative amounts\<close>

text \<open>Every negative integer below the overflow bound converts to a negative float.\<close>

lemma negative_integers_convert:
  assumes "n < 0" and "\<bar>n\<bar> < float_max_int"
  shows "\<exists>a. py_float rt (JInt n) = Inr a \<and> flt a 0"
proof -
  have "n \<le> - 1" using assms(1) by simp
  then have "(of_int n :: real) \<le> of_int (- 1)" by (simp only: of_int_le_iff)
  then have "(of_int n :: real) \<le> - 1" by simp
  then have "flt (round_double (of_int n)) 0" by (rule round_double_negative)
  with assms(2) show ?thesis by simp
qed

text \<open>
  C7, as stated, fails on a negative amount that is not in the range of a double.
  \<open>huge_negative_record\<close> has a time stamp that parses and the amount \<open>-(10^400)\<close>, a
  negative number; the validator does not accept it as a pair.
\<close>

theorem negative_huge_amount_counterexample:
  "fromisoformat (ref_runtime []) ''2024-01-01T00:00:00'' = Some day1_0000
   \<and> py_getitem huge_negative_record ''timestamp'' = Inr (JStr ''2024-01-01T00:00:00'')
   \<and> py_getitem huge_negative_record ''amount'' = Inr (JInt (- (10 ^ 400)))
   \<and> - (10 ^ 400) < (0 :: int)
   \<and> parse_sale_record (ref_runtime []) huge_negative_record = Inl OverflowError"
proof -
  have "fromisoformat (ref_runtime []) ''2024-01-01T00:00:00'' = Some day1_0000"
    by (simp add: ref_runtime_def iso_examples)
  moreover have "parse_sale_record (ref_runtime []) huge_negative_record = Inl OverflowError"
    by (simp add: huge_negative_record_def parse_sale_record_def parse_body_def py_str_def
          caught_list_ex float_max_int_def)
  ultimately show ?thesis by (simp add: huge_negative_record_def)
qed

text \<open>
  C7, amended. A record with a time stamp that parses and an amount that \<^verbatim>\<open>float\<close> converts
  to a negative float \<open>a\<close> is accepted with that amount: the validator applies no bound.
  In every list that holds it and on which the validator returns for each record, the
  pair is among the valid sales the report collects, and \<open>a\<close> is among the amounts that the
  daily total of its date adds up.
\<close>

theorem negative_amount_accepted:
  assumes "py_getitem r ''timestamp'' = Inr tv"
    and "fromisoformat rt (py_str rt tv) = Some t"
    and "py_getitem r ''amount'' = Inr av"
    and "py_float rt av = Inr a"
    and "flt a 0"
  shows "parse_sale_record rt r = Inr (Some (t, a))
         \<and> (\<forall>sales. r \<in> set sales \<and> validator_returns rt sales \<longrightarrow>
               (t, a) \<in> set (valid_records rt sales)
             \<and> collect_valid rt sales [] = Inr (valid_records rt sales)
             \<and> daily_loop rt (date_of t) sales 0
                 = Inr (py_sum (date_amounts (date_of t) (valid_records rt sales)))
             \<and> a \<in> set (date_amounts (date_of t) (valid_records rt sales)))"
proof (intro conjI allI impI)
  show p: "parse_sale_record rt r = Inr (Some (t, a))"
    using assms by (simp add: parse_sale_record_accepts)
  fix sales
  assume s: "r \<in> set sales \<and> validator_returns rt sales"
  then show m: "(t, a) \<in> set (valid_records rt sales)"
    using p by (blast intro: valid_records_mem)
  show "collect_valid rt sales [] = Inr (valid_records rt sales)"
    using s collect_valid_ok[of rt sales "[]"] by simp
  show "daily_loop rt (date_of t) sales 0
          = Inr (py_sum (date_amounts (date_of t) (valid_records rt sales)))"
    using s by (simp add: daily_loop_sum py_sum_def)
  show "a \<in> set (date_amounts (date_of t) (valid_records rt sales))"
    using m by (force simp: date_amounts_def)
qed

theorem negative_amount_accepted_witness:
  "flt (Fin (- 5)) 0
   \<and> parse_sale_record (ref_runtime []) (sale ''2024-01-01T09:00:00'' (Fin (- 5)))
       = Inr (Some (day1_0900, Fin (- 5)))
   \<and> (day1_0900, Fin (- 5)) \<in> set (valid_records (ref_runtime []) negative_sales)
   \<and> daily_loop (ref_runtime []) (date_of day1_0900) negative_sales 0 = Inr (Fin (- 4))"
proof -
  let ?rt = "ref_runtime []"
  let ?r = "sale ''2024-01-01T09:00:00'' (Fin (- 5))"
  have 1: "py_getitem ?r ''timestamp'' = Inr (JStr ''2024-01-01T09:00:00'')"
    by (simp add: sale_def)
  have 2: "fromisoformat ?rt (py_str ?rt (JStr ''2024-01-01T09:00:00'')) = Some day1_0900"
    by (simp add: ref_runtime_def py_str_def iso_examples)
  have 3: "py_getitem ?r ''amount'' = Inr (JFloat (Fin (- 5)))" by (simp add: sale_def)
  have 4: "py_float ?rt (JFloat (Fin (- 5))) = Inr (Fin (- 5))" by simp
  have 5: "flt (Fin (- 5)) 0" by (simp add: zero_pyfloat_def)
  have v: "valid_records ?rt negative_sales = [(day1_1000, Fin 1), (day1_0900, Fin (- 5))]"
    by (simp add: valid_records_def negative_sales_def parse_sale iso_examples)
  have h: "?r \<in> set negative_sales \<and> validator_returns ?rt negative_sales"
    by (simp add: negative_sales_def validator_returns_def parse_sale iso_examples)
  have d: "date_amounts (date_of day1_0900) (valid_records ?rt negative_sales) = [Fin 1, Fin (- 5)]"
    by (simp add: v date_amounts_def date_of_def day1_0900_def day1_1000_def)
  have s: "py_sum [Fin 1, Fin (- 5)] = Fin (- 4)"
    using fadd_of_int[of 0 1] fadd_of_int[of 1 "- 5"] by (simp add: py_sum_def zero_pyfloat_def)
  from negative_amount_accepted[OF 1 2 3 4 5] h
  have "parse_sale_record ?rt ?r = Inr (Some (day1_0900, Fin (- 5)))"
    and "(day1_0900, Fin (- 5)) \<in> set (valid_records ?rt negative_sales)"
    and "daily_loop ?rt (date_of day1_0900) negative_sales 0
           = Inr (py_sum (date_amounts (date_of day1_0900) (valid_records ?rt negative_sales)))"
    by blast+
  with 5 show ?thesis by (simp add: d s)
qed

section \<open>Properties of loading and saving\<close>

lemma load_absent: "data_file w = None \<Longrightarrow> load_sales_data rt w = Inr []"
  by (simp add: load_sales_data_def)

lemma load_unreadable: "data_file w = Some Unreadable \<Longrightarrow> load_sales_data rt w = Inr []"
  by (simp add: load_sales_data_def load_body_def read_text_def caught_list_ex)

lemma load_not_json:
  "data_file w = Some (Bytes bs) \<Longrightarrow> utf8_valid bs \<Longrightarrow> json_loads rt bs = Inl JSONDecodeError
   \<Longrightarrow> load_sales_data rt w = Inr []"
  by (simp add: load_sales_data_def load_body_def read_text_def caught_list_ex)

lemma load_not_array:
  "data_file w = Some (Bytes bs) \<Longrightarrow> utf8_valid bs \<Longrightarrow> json_loads rt bs = Inr v
   \<Longrightarrow> \<forall>xs. v \<noteq> JList xs \<Longrightarrow> load_sales_data rt w = Inr []"
  by (cases v) (simp_all add: load_sales_data_def load_body_def read_text_def)

lemma load_array:
  "data_file w = Some (Bytes bs) \<Longrightarrow> utf8_valid bs \<Longrightarrow> json_loads rt bs = Inr (JList xs)
   \<Longrightarrow> load_sales_data rt w = Inr xs"
  by (simp add: load_sales_data_def load_body_def read_text_def)

lemma load_undecodable:
  "data_file w = Some (Bytes bs) \<Longrightarrow> \<not> utf8_valid bs \<Longrightarrow> load_sales_data rt w = Inl UnicodeDecodeError"
  by (simp add: load_sales_data_def load_body_def read_text_def caught_list_ex)

text \<open>
  C8. A data file that cannot be parsed is meant to load as the empty list. A file that
  holds the single byte \<open>0xFF\<close> is not UTF-8: reading it raises \<^verbatim>\<open>UnicodeDecodeError\<close>,
  which is neither a \<^verbatim>\<open>JSONDecodeError\<close> nor an \<^verbatim>\<open>OSError\<close>, and the load raises it. This
  holds for every runtime.
\<close>

theorem load_raises_on_undecodable_file:
  "load_sales_data rt (w\<lparr>data_file := Some (Bytes [CHR 0xFF])\<rparr>) = Inl UnicodeDecodeError"
  by (simp add: load_sales_data_def load_body_def read_text_def caught_list_ex utf8_valid_def
        utf8_lead_def)

text \<open>Loading after saving decodes the text that the encoder wrote for the list.\<close>

lemma load_after_save:
  "load_sales_data rt (save_sales_data rt sales w) =
     (case load_body rt (Bytes (json_dumps rt (JList sales))) of
        Inr data \<Rightarrow> Inr data
      | Inl e \<Rightarrow> if caught [JSONDecodeError, OSError] e then Inr [] else Inl e)"
  by (simp add: load_sales_data_def save_sales_data_def)

section \<open>Properties of adding a sale\<close>

text \<open>
  C5. When the text typed, stripped, is no number or is a number below zero, the sale is
  rejected: the list of records is returned as it was, and the world changes by the line
  read and by the prompt and the error line printed; the data file is as before.
\<close>

theorem add_sale_rejects:
  assumes "stdin w = l # rest"
    and "float_of_str rt (strip rt l) = None
         \<or> (\<exists>a. float_of_str rt (strip rt l) = Some a \<and> flt a 0)"
  shows "add_sale rt sales w =
           Inr (sales, w\<lparr>stdin := rest,
                          stdout := stdout w @ [Prompt ''Enter sale amount: '',
                             Line ''Invalid amount. Please enter a non-negative number.'']\<rparr>)
         \<and> data_file (w\<lparr>stdin := rest,
                          stdout := stdout w @ [Prompt ''Enter sale amount: '',
                             Line ''Invalid amount. Please enter a non-negative number.'']\<rparr>)
             = data_file w"
  using assms
  by (auto simp: add_sale_def py_input_def amount_of_text_def caught_list_ex py_print_def)

theorem add_sale_rejects_witness:
  "add_sale (ref_runtime []) example_sales (empty_world\<lparr>stdin := [''-5'']\<rparr>) =
     Inr (example_sales,
          empty_world\<lparr>stdin := [],
            stdout := [Prompt ''Enter sale amount: '',
                       Line ''Invalid amount. Please enter a non-negative number.'']\<rparr>)
   \<and> add_sale (ref_runtime []) example_sales (empty_world\<lparr>stdin := [''ten'']\<rparr>) =
     Inr (example_sales,
          empty_world\<lparr>stdin := [],
            stdout := [Prompt ''Enter sale amount: '',
                       Line ''Invalid amount. Please enter a non-negative number.'']\<rparr>)"
proof -
  let ?rt = "ref_runtime []"
  have neg: "float_of_str ?rt (strip ?rt ''-5'') = Some (Fin (- 5)) \<and> flt (Fin (- 5)) 0"
    by (simp add: ref_runtime_def py_strip_def is_space_def is_space2_def is_space3_def simple_float_def
          unsigned_float_def is_digit_def nat_of_digits_def zero_pyfloat_def round_double_numeral)
  have bad: "float_of_str ?rt (strip ?rt ''ten'') = None"
    by (simp add: ref_runtime_def py_strip_def is_space_def is_space2_def is_space3_def simple_float_def
          unsigned_float_def is_digit_def)
  have a: "stdin (empty_world\<lparr>stdin := [''-5'']\<rparr>) = ''-5'' # []" by simp
  have b: "stdin (empty_world\<lparr>stdin := [''ten'']\<rparr>) = ''ten'' # []" by simp
  from add_sale_rejects[OF a, of ?rt example_sales] neg
       add_sale_rejects[OF b, of ?rt example_sales] bad
  show ?thesis by (simp add: empty_world_def)
qed

lemma not_flt_zero: "\<not> flt a 0 \<longleftrightarrow> a = NaN \<or> a = PInf \<or> (\<exists>q\<ge>0. a = Fin q)"
  by (cases a) (auto simp: zero_pyfloat_def)

text \<open>
  C10. When the text typed, stripped, is a number \<open>a\<close> for which \<open>a < 0\<close> is false, the sale
  is accepted: the record of the amount \<open>a\<close> and of the time of the clock, written to the
  second, is appended, the whole list is saved, and the confirmation is printed. The
  record appended validates to the amount \<open>a\<close> wherever its time stamp is read back. The
  amounts for which \<open>a < 0\<close> is false are NaN, positive infinity and the finite numbers
  from zero on.
\<close>

theorem add_sale_accepts:
  "(\<forall>rt sales w l rest a.
      stdin w = l # rest \<and> float_of_str rt (strip rt l) = Some a \<and> \<not> flt a 0 \<longrightarrow>
      add_sale rt sales w =
        Inr (sales @ [JObj [(''amount'', JFloat a),
                            (''timestamp'', JStr (isoformat_seconds (clock rt (ticks w))))]],
             w\<lparr>stdin := rest,
               stdout := stdout w @ [Prompt ''Enter sale amount: '', SaleAdded a],
               ticks := Suc (ticks w),
               data_file := Some (Bytes (json_dumps rt
                  (JList (sales @ [JObj [(''amount'', JFloat a),
                     (''timestamp'', JStr (isoformat_seconds (clock rt (ticks w))))]]))))\<rparr>))
   \<and> (\<forall>rt a now t.
         fromisoformat rt (isoformat_seconds now) = Some t \<longrightarrow>
         parse_sale_record rt
           (JObj [(''amount'', JFloat a), (''timestamp'', JStr (isoformat_seconds now))])
           = Inr (Some (t, a)))
   \<and> (\<forall>a. \<not> flt a 0 \<longleftrightarrow> a = NaN \<or> a = PInf \<or> (\<exists>q\<ge>0. a = Fin q))"
proof (intro conjI)
  show "\<forall>rt sales w l rest a.
      stdin w = l # rest \<and> float_of_str rt (strip rt l) = Some a \<and> \<not> flt a 0 \<longrightarrow>
      add_sale rt sales w =
        Inr (sales @ [JObj [(''amount'', JFloat a),
                            (''timestamp'', JStr (isoformat_seconds (clock rt (ticks w))))]],
             w\<lparr>stdin := rest,
               stdout := stdout w @ [Prompt ''Enter sale amount: '', SaleAdded a],
               ticks := Suc (ticks w),
               data_file := Some (Bytes (json_dumps rt
                  (JList (sales @ [JObj [(''amount'', JFloat a),
                     (''timestamp'', JStr (isoformat_seconds (clock rt (ticks w))))]]))))\<rparr>)"
    by (auto simp: add_sale_def py_input_def amount_of_text_def py_print_def py_now_def
          save_sales_data_def Let_def)
  show "\<forall>rt a now t.
         fromisoformat rt (isoformat_seconds now) = Some t \<longrightarrow>
         parse_sale_record rt
           (JObj [(''amount'', JFloat a), (''timestamp'', JStr (isoformat_seconds now))])
           = Inr (Some (t, a))"
    by (simp add: parse_sale_record_accepts py_str_def)
  show "\<forall>a. \<not> flt a 0 \<longleftrightarrow> a = NaN \<or> a = PInf \<or> (\<exists>q\<ge>0. a = Fin q)"
    using not_flt_zero by blast
qed

lemma isoformat_noon: "isoformat_seconds (noon 0) = ''2024-01-02T12:00:00''"
  by (simp add: isoformat_seconds_def noon_def pad4_def pad2_def digit_char_def)

theorem add_sale_accepts_witness:
  "add_sale (ref_runtime []) [] (empty_world\<lparr>stdin := [''nan'']\<rparr>) =
     Inr ([JObj [(''amount'', JFloat NaN), (''timestamp'', JStr ''2024-01-02T12:00:00'')]],
          empty_world\<lparr>stdin := [],
            stdout := [Prompt ''Enter sale amount: '', SaleAdded NaN],
            ticks := 1,
            data_file := Some (Bytes (json_dumps (ref_runtime [])
              (JList [JObj [(''amount'', JFloat NaN),
                            (''timestamp'', JStr ''2024-01-02T12:00:00'')]])))\<rparr>)
   \<and> add_sale (ref_runtime []) [] (empty_world\<lparr>stdin := [''inf'']\<rparr>) =
     Inr ([JObj [(''amount'', JFloat PInf), (''timestamp'', JStr ''2024-01-02T12:00:00'')]],
          empty_world\<lparr>stdin := [],
            stdout := [Prompt ''Enter sale amount: '', SaleAdded PInf],
            ticks := 1,
            data_file := Some (Bytes (json_dumps (ref_runtime [])
              (JList [JObj [(''amount'', JFloat PInf),
                            (''timestamp'', JStr ''2024-01-02T12:00:00'')]])))\<rparr>)"
proof -
  let ?rt = "ref_runtime []"
  let ?wn = "empty_world\<lparr>stdin := [''nan'']\<rparr>" and ?wi = "empty_world\<lparr>stdin := [''inf'']\<rparr>"
  have n: "stdin ?wn = ''nan'' # []
           \<and> float_of_str ?rt (strip ?rt ''nan'') = Some NaN \<and> \<not> flt NaN 0"
    by (simp add: ref_runtime_def py_strip_def is_space_def is_space2_def is_space3_def simple_float_def unsigned_float_def)
  have i: "stdin ?wi = ''inf'' # []
           \<and> float_of_str ?rt (strip ?rt ''inf'') = Some PInf \<and> \<not> flt PInf 0"
    by (simp add: ref_runtime_def py_strip_def is_space_def is_space2_def is_space3_def simple_float_def unsigned_float_def
          zero_pyfloat_def)
  from add_sale_accepts n
  have 1: "add_sale ?rt [] ?wn =
        Inr ([] @ [JObj [(''amount'', JFloat NaN),
                         (''timestamp'', JStr (isoformat_seconds (clock ?rt (ticks ?wn))))]],
             ?wn\<lparr>stdin := [],
               stdout := stdout ?wn @ [Prompt ''Enter sale amount: '', SaleAdded NaN],
               ticks := Suc (ticks ?wn),
               data_file := Some (Bytes (json_dumps ?rt
                  (JList ([] @ [JObj [(''amount'', JFloat NaN),
                     (''timestamp'', JStr (isoformat_seconds (clock ?rt (ticks ?wn))))]]))))\<rparr>)"
    by blast
  from add_sale_accepts i
  have 2: "add_sale ?rt [] ?wi =
        Inr ([] @ [JObj [(''amount'', JFloat PInf),
                         (''timestamp'', JStr (isoformat_seconds (clock ?rt (ticks ?wi))))]],
             ?wi\<lparr>stdin := [],
               stdout := stdout ?wi @ [Prompt ''Enter sale amount: '', SaleAdded PInf],
               ticks := Suc (ticks ?wi),
               data_file := Some (Bytes (json_dumps ?rt
                  (JList ([] @ [JObj [(''amount'', JFloat PInf),
                     (''timestamp'', JStr (isoformat_seconds (clock ?rt (ticks ?wi))))]]))))\<rparr>)"
    by blast
  have t: "ticks empty_world = 0" "stdout empty_world = []" by (simp_all add: empty_world_def)
  from 1 2 show ?thesis by (simp add: ref_clock t isoformat_noon)
qed

section \<open>Properties of the login\<close>

text \<open>
  C9, as stated, fails on a password typed with a space before it. In \<open>spaced_login\<close>
  three passwords are typed and none of them equals the admin password; the third is the
  password after a space, which \<^verbatim>\<open>strip\<close> removes before the comparison. The login
  succeeds and the menu is shown.
\<close>

theorem spaced_password_counterexample:
  "''letmein'' \<noteq> get_admin_password spaced_login
   \<and> ''password'' \<noteq> get_admin_password spaced_login
   \<and> '' admin123'' \<noteq> get_admin_password spaced_login
   \<and> main (ref_runtime []) spaced_login =
       Inr (empty_world\<lparr>stdout :=
          [Line (CHR 0x0A # ''=== Sales Management Login ===''),
           Prompt ''Enter admin password: '', AttemptsLeft 2,
           Prompt ''Enter admin password: '', AttemptsLeft 1,
           Prompt ''Enter admin password: '',
           Line (''Login successful.'' @ [CHR 0x0A]),
           Line (CHR 0x0A # ''=== Admin Dashboard ===''),
           Line ''1. Add Sale'', Line ''2. View Sales'', Line ''3. Show Daily Total'',
           Line ''4. Generate Sales Report'', Line ''5. Exit'',
           Prompt ''Choose an option (1-5): '',
           Line ''Exiting Sales Management System. Goodbye!'']\<rparr>)"
  by (simp add: spaced_login_def main_def authenticate_def get_admin_password_def
     DEFAULT_ADMIN_PASSWORD_def MAX_LOGIN_ATTEMPTS_def
     py_print_def py_input_def empty_world_def ref_runtime_def py_strip_def is_space_def is_space2_def is_space3_def menu_loop_def
     load_sales_data_def print_menu_def upt_rec)

text \<open>
  C9, amended. When none of the first three lines typed equals the admin password after
  \<^verbatim>\<open>strip\<close>, authentication returns \<open>False\<close>, and the program ends there: it has printed the
  login lines and the denial, and nothing of the menu; the lines typed after the third are
  not read, and the rest of the world is as before.
\<close>

theorem three_failures_deny_access:
  assumes "stdin w = p1 # p2 # p3 # rest"
    and "strip rt p1 \<noteq> get_admin_password w"
    and "strip rt p2 \<noteq> get_admin_password w"
    and "strip rt p3 \<noteq> get_admin_password w"
  shows "authenticate rt w =
           Inr (False, w\<lparr>stdin := rest,
                  stdout := stdout w @
                    [Line (CHR 0x0A # ''=== Sales Management Login ===''),
                     Prompt ''Enter admin password: '', AttemptsLeft 2,
                     Prompt ''Enter admin password: '', AttemptsLeft 1,
                     Prompt ''Enter admin password: '',
                     Line ''Access denied. Too many failed attempts.'']\<rparr>)
         \<and> main rt w =
           Inr (w\<lparr>stdin := rest,
                  stdout := stdout w @
                    [Line (CHR 0x0A # ''=== Sales Management Login ===''),
                     Prompt ''Enter admin password: '', AttemptsLeft 2,
                     Prompt ''Enter admin password: '', AttemptsLeft 1,
                     Prompt ''Enter admin password: '',
                     Line ''Access denied. Too many failed attempts.'']\<rparr>)"
proof -
  have "authenticate rt w =
           Inr (False, w\<lparr>stdin := rest,
                  stdout := stdout w @
                    [Line (CHR 0x0A # ''=== Sales Management Login ===''),
                     Prompt ''Enter admin password: '', AttemptsLeft 2,
                     Prompt ''Enter admin password: '', AttemptsLeft 1,
                     Prompt ''Enter admin password: '',
                     Line ''Access denied. Too many failed attempts.'']\<rparr>)"
    using assms
    by (simp add: authenticate_def get_admin_password_def MAX_LOGIN_ATTEMPTS_def
          py_print_def py_input_def upt_rec Let_def)
  then show ?thesis by (simp add: main_def)
qed

theorem three_failures_deny_access_witness:
  "main (ref_runtime []) (empty_world\<lparr>stdin := [''letmein'', ''password'', ''admin'', ''1'', ''10'']\<rparr>) =
     Inr (empty_world\<lparr>stdin := [''1'', ''10''],
            stdout :=
              [Line (CHR 0x0A # ''=== Sales Management Login ===''),
               Prompt ''Enter admin password: '', AttemptsLeft 2,
               Prompt ''Enter admin password: '', AttemptsLeft 1,
               Prompt ''Enter admin password: '',
               Line ''Access denied. Too many failed attempts.'']\<rparr>)"
proof -
  let ?rt = "ref_runtime []"
  let ?w = "empty_world\<lparr>stdin := [''letmein'', ''password'', ''admin'', ''1'', ''10'']\<rparr>"
  have 0: "stdin ?w = ''letmein'' # ''password'' # ''admin'' # [''1'', ''10'']" by simp
  have s: "strip ?rt = py_strip" by (simp add: ref_runtime_def)
  have pw: "get_admin_password ?w = ''admin123''"
    by (simp add: get_admin_password_def empty_world_def DEFAULT_ADMIN_PASSWORD_def)
  have 1: "strip ?rt ''letmein'' \<noteq> get_admin_password ?w"
    unfolding s pw by (simp add: py_strip_def is_space_def is_space2_def is_space3_def)
  have 2: "strip ?rt ''password'' \<noteq> get_admin_password ?w"
    unfolding s pw by (simp add: py_strip_def is_space_def is_space2_def is_space3_def)
  have 3: "strip ?rt ''admin'' \<noteq> get_admin_password ?w"
    unfolding s pw by (simp add: py_strip_def is_space_def is_space2_def is_space3_def)
  from three_failures_deny_access[OF 0 1 2 3] show ?thesis by (simp add: empty_world_def)
qed

end
